theory Spec2Isabelle
  imports Complex_Main
begin

section \<open>JavaScript values used by server.js\<close>

subsection \<open>Numbers\<close>

text \<open>
  A JavaScript number is an IEEE 754 binary64 value: NaN, an infinity, a zero of
  either sign, or a finite value that is not zero. \<open>Fin a\<close> is the finite value
  \<open>a\<close>, with \<open>Fin 0\<close> for +0, and \<open>NegZero\<close> is -0. The result of every operation
  below is the exact result rounded to binary64.
\<close>

datatype jsnum = NaN | NegInf | NegZero | Fin rat | PosInf

text \<open>
  Rounding a magnitude to the nearest binary64 magnitude, ties to even: with
  \<open>2 ^ e \<le> a < 2 ^ (e + 1)\<close> the spacing of the values around \<open>a\<close> is
  \<open>2 ^ (e - 52)\<close>, and never less than \<open>2 ^ (- 1074)\<close> (the subnormal range). The
  result overflows (\<open>None\<close>) when it reaches \<open>2 ^ 1024\<close>.
\<close>

definition pow2 :: "int \<Rightarrow> rat" where
  "pow2 k = (if 0 \<le> k then 2 ^ nat k else 1 / 2 ^ nat (- k))"

function bit_length :: "int \<Rightarrow> int" where
  "bit_length n = (if n \<le> 0 then 0 else 1 + bit_length (n div 2))"
  by pat_completeness auto
termination
  by (relation "measure nat") auto

definition floor_log2 :: "rat \<Rightarrow> int" where
  "floor_log2 a =
     (let (p, q) = quotient_of a;
          d = bit_length p - bit_length q
      in if pow2 d \<le> a then d else d - 1)"

definition round_half_even :: "rat \<Rightarrow> int" where
  "round_half_even r =
     (let f = \<lfloor>r\<rfloor>; t = r - of_int f
      in if t < 1 / 2 then f
         else if 1 / 2 < t then f + 1
         else if even f then f else f + 1)"

definition round64 :: "rat \<Rightarrow> rat option" where
  "round64 a =
     (if a = 0 then Some 0
      else (let e = floor_log2 a;
                k = max (e - 52) (- 1074);
                m = round_half_even (a / pow2 k)
            in if 1024 \<le> e \<or> (e = 1023 \<and> m = 9007199254740992) then None
               else Some (of_int m * pow2 k)))"

definition signed_inf :: "bool \<Rightarrow> jsnum" where
  "signed_inf neg = (if neg then NegInf else PosInf)"

definition signed_zero :: "bool \<Rightarrow> jsnum" where
  "signed_zero neg = (if neg then NegZero else Fin 0)"

text \<open>
  The number for an exact value \<open>x\<close>; \<open>neg\<close> is the sign that a zero result takes.
\<close>

definition fl :: "bool \<Rightarrow> rat \<Rightarrow> jsnum" where
  "fl neg x =
     (case round64 \<bar>x\<bar> of
        None \<Rightarrow> signed_inf (x < 0)
      | Some v \<Rightarrow>
          if v = 0 then signed_zero neg
          else Fin (if x < 0 then - v else v))"

fun is_neg :: "jsnum \<Rightarrow> bool" where
  "is_neg NegInf = True"
| "is_neg NegZero = True"
| "is_neg (Fin a) = (a < 0)"
| "is_neg NaN = False"
| "is_neg PosInf = False"

fun finite_value :: "jsnum \<Rightarrow> rat option" where
  "finite_value (Fin a) = Some a"
| "finite_value NegZero = Some 0"
| "finite_value NaN = None"
| "finite_value NegInf = None"
| "finite_value PosInf = None"

text \<open>Truthiness of a number in a condition: NaN and the zeros are falsy.\<close>

fun truthy_num :: "jsnum \<Rightarrow> bool" where
  "truthy_num NaN = False"
| "truthy_num NegZero = False"
| "truthy_num (Fin a) = (a \<noteq> 0)"
| "truthy_num NegInf = True"
| "truthy_num PosInf = True"

text \<open>
  Sum, product and quotient. The sum of two opposite values is +0, and of two zeros
  is -0 only when both are; a product or quotient has the sign of its operands also
  when it is a zero or an infinity; infinity minus infinity, zero times infinity,
  zero over zero and infinity over infinity are NaN.
\<close>

definition js_add :: "jsnum \<Rightarrow> jsnum \<Rightarrow> jsnum" where
  "js_add x y =
     (if x = NaN \<or> y = NaN then NaN
      else (case (finite_value x, finite_value y) of
              (Some a, Some b) \<Rightarrow>
                if a + b = 0 then signed_zero (is_neg x \<and> is_neg y)
                else fl (a + b < 0) (a + b)
            | (Some a, None) \<Rightarrow> y
            | (None, Some b) \<Rightarrow> x
            | (None, None) \<Rightarrow> if x = y then x else NaN))"

definition js_mul :: "jsnum \<Rightarrow> jsnum \<Rightarrow> jsnum" where
  "js_mul x y =
     (if x = NaN \<or> y = NaN then NaN
      else (let neg = (is_neg x \<noteq> is_neg y) in
            case (finite_value x, finite_value y) of
              (Some a, Some b) \<Rightarrow> fl neg (a * b)
            | (Some a, None) \<Rightarrow> if a = 0 then NaN else signed_inf neg
            | (None, Some b) \<Rightarrow> if b = 0 then NaN else signed_inf neg
            | (None, None) \<Rightarrow> signed_inf neg))"

definition js_div :: "jsnum \<Rightarrow> jsnum \<Rightarrow> jsnum" where
  "js_div x y =
     (if x = NaN \<or> y = NaN then NaN
      else (let neg = (is_neg x \<noteq> is_neg y) in
            case (finite_value x, finite_value y) of
              (Some a, Some b) \<Rightarrow>
                if b = 0 then (if a = 0 then NaN else signed_inf neg)
                else fl neg (a / b)
            | (Some a, None) \<Rightarrow> signed_zero neg
            | (None, Some b) \<Rightarrow> signed_inf neg
            | (None, None) \<Rightarrow> NaN))"

text \<open>
  \<^verbatim>\<open>Math.floor\<close> (the floor of a binary64 value is one, so nothing is rounded) and
  the two-argument \<^verbatim>\<open>Math.min\<close>, for which -0 is less than +0.
\<close>

fun Math_floor :: "jsnum \<Rightarrow> jsnum" where
  "Math_floor (Fin a) = Fin (of_int \<lfloor>a\<rfloor>)"
| "Math_floor x = x"

fun Math_min :: "jsnum \<Rightarrow> jsnum \<Rightarrow> jsnum" where
  "Math_min NaN _ = NaN"
| "Math_min _ NaN = NaN"
| "Math_min NegInf _ = NegInf"
| "Math_min _ NegInf = NegInf"
| "Math_min PosInf y = y"
| "Math_min x PosInf = x"
| "Math_min NegZero NegZero = NegZero"
| "Math_min NegZero (Fin b) = (if b < 0 then Fin b else NegZero)"
| "Math_min (Fin a) NegZero = (if a < 0 then Fin a else NegZero)"
| "Math_min (Fin a) (Fin b) = Fin (min a b)"

text \<open>The comparison \<^verbatim>\<open>x <= y\<close>: false as soon as one side is NaN; the zeros are equal.\<close>

fun js_le :: "jsnum \<Rightarrow> jsnum \<Rightarrow> bool" where
  "js_le NaN _ = False"
| "js_le _ NaN = False"
| "js_le NegInf _ = True"
| "js_le _ PosInf = True"
| "js_le PosInf _ = False"
| "js_le _ NegInf = False"
| "js_le NegZero NegZero = True"
| "js_le NegZero (Fin b) = (0 \<le> b)"
| "js_le (Fin a) NegZero = (a \<le> 0)"
| "js_le (Fin a) (Fin b) = (a \<le> b)"

subsection \<open>Strings\<close>

text \<open>\<^verbatim>\<open>s.split(c)\<close> for a one-character separator: never the empty array.\<close>

fun split :: "char \<Rightarrow> string \<Rightarrow> string list" where
  "split c [] = [[]]"
| "split c (x # xs) =
     (if x = c then [] # split c xs
      else (case split c xs of
              [] \<Rightarrow> [[x]]
            | y # ys \<Rightarrow> (x # y) # ys))"

text \<open>\<^verbatim>\<open>parts.join(sep)\<close>.\<close>

fun join :: "string \<Rightarrow> string list \<Rightarrow> string" where
  "join sep [] = []"
| "join sep [x] = x"
| "join sep (x # y # ys) = x @ sep @ join sep (y # ys)"

text \<open>
  White space skipped by \<^verbatim>\<open>parseInt\<close>, \<^verbatim>\<open>parseFloat\<close> and the conversion of a
  string to a number (the ASCII part of it: tab, line feed, vertical tab, form feed,
  carriage return, space).
\<close>

definition is_space :: "char \<Rightarrow> bool" where
  "is_space c = (of_char c \<in> {9, 10, 11, 12, 13, 32 :: nat})"

definition is_digit :: "char \<Rightarrow> bool" where
  "is_digit c = (48 \<le> (of_char c :: nat) \<and> (of_char c :: nat) \<le> 57)"

definition digits_value :: "string \<Rightarrow> int" where
  "digits_value ds = foldl (\<lambda>a c. 10 * a + (of_char c - 48)) 0 ds"

text \<open>An optional sign in front of a number: whether it is a minus, and the rest.\<close>

fun strip_sign :: "string \<Rightarrow> bool \<times> string" where
  "strip_sign [] = (False, [])"
| "strip_sign (c # cs) =
     (if c = CHR ''-'' then (True, cs)
      else if c = CHR ''+'' then (False, cs)
      else (False, c # cs))"

definition signed :: "bool \<Rightarrow> rat \<Rightarrow> rat" where
  "signed neg a = (if neg then - a else a)"

text \<open>
  \<^verbatim>\<open>parseInt(s, 10)\<close>: leading white space, an optional sign, then the longest run of
  decimal digits; NaN when there is no digit, and -0 for a zero after a minus.
\<close>

definition parseInt :: "string \<Rightarrow> jsnum" where
  "parseInt s =
     (let (neg, r) = strip_sign (dropWhile is_space s);
          ds = takeWhile is_digit r
      in if ds = [] then NaN else fl neg (signed neg (of_int (digits_value ds))))"

text \<open>
  The exponent part of a decimal literal: \<^verbatim>\<open>e\<close> or \<^verbatim>\<open>E\<close>, an optional sign and at
  least one digit; without a digit there is no exponent part. The result is the
  exponent and what follows the part.
\<close>

definition exponent_part :: "string \<Rightarrow> int \<times> string" where
  "exponent_part r =
     (case r of
        [] \<Rightarrow> (0, r)
      | c # cs \<Rightarrow>
          if c = CHR ''e'' \<or> c = CHR ''E'' then
            (let (neg, t) = strip_sign cs;
                 ds = takeWhile is_digit t
             in if ds = [] then (0, r)
                else (if neg then - digits_value ds else digits_value ds,
                      dropWhile is_digit t))
          else (0, r))"

definition scale10 :: "rat \<Rightarrow> int \<Rightarrow> rat" where
  "scale10 m e = (if 0 \<le> e then m * 10 ^ nat e else m / 10 ^ nat (- e))"

text \<open>
  The longest prefix of a string that is a decimal literal: an optional sign, then
  \<^verbatim>\<open>Infinity\<close> or digits with an optional fraction and an optional exponent. The
  result is its value and the rest of the string, or \<open>None\<close> when no prefix is a
  literal.
\<close>

definition decimal_prefix :: "string \<Rightarrow> (jsnum \<times> string) option" where
  "decimal_prefix s =
     (let (neg, r) = strip_sign s in
      if take 8 r = ''Infinity'' then Some (signed_inf neg, drop 8 r)
      else
        (let ip = takeWhile is_digit r;
             r1 = dropWhile is_digit r;
             (fp, r2) = (case r1 of
                           [] \<Rightarrow> ([], r1)
                         | c # cs \<Rightarrow>
                             if c = CHR ''.'' \<and> (ip \<noteq> [] \<or> takeWhile is_digit cs \<noteq> [])
                             then (takeWhile is_digit cs, dropWhile is_digit cs)
                             else ([], r1));
             (ex, r3) = exponent_part r2
         in if ip = [] \<and> fp = [] then None
            else Some (fl neg (signed neg (scale10
                         (of_int (digits_value ip) + of_int (digits_value fp) / 10 ^ length fp)
                         ex)),
                       r3)))"

text \<open>\<^verbatim>\<open>parseFloat(s)\<close>: leading white space, then the value of that prefix, or NaN.\<close>

definition parseFloat :: "string \<Rightarrow> jsnum" where
  "parseFloat s =
     (case decimal_prefix (dropWhile is_space s) of
        None \<Rightarrow> NaN
      | Some (v, rest) \<Rightarrow> v)"

text \<open>
  The conversion of a string to a number, as the division of line 159 applies it to a
  string operand: white space is trimmed at both ends; the empty string is +0; the
  whole of the rest must be a decimal literal, or an unsigned hexadecimal, octal or
  binary integer literal; anything else is NaN.
\<close>

definition digit_of :: "char \<Rightarrow> int option" where
  "digit_of c =
     (let n = (of_char c :: int) in
      if 48 \<le> n \<and> n \<le> 57 then Some (n - 48)
      else if 97 \<le> n \<and> n \<le> 102 then Some (n - 87)
      else if 65 \<le> n \<and> n \<le> 70 then Some (n - 55)
      else None)"

fun radix_value :: "int \<Rightarrow> int \<Rightarrow> string \<Rightarrow> int option" where
  "radix_value b acc [] = Some acc"
| "radix_value b acc (c # cs) =
     (case digit_of c of
        None \<Rightarrow> None
      | Some d \<Rightarrow> if d < b then radix_value b (b * acc + d) cs else None)"

definition radix_of :: "char \<Rightarrow> int option" where
  "radix_of c =
     (if c = CHR ''x'' \<or> c = CHR ''X'' then Some 16
      else if c = CHR ''o'' \<or> c = CHR ''O'' then Some 8
      else if c = CHR ''b'' \<or> c = CHR ''B'' then Some 2
      else None)"

definition trim :: "string \<Rightarrow> string" where
  "trim s = rev (dropWhile is_space (rev (dropWhile is_space s)))"

definition StringToNumber :: "string \<Rightarrow> jsnum" where
  "StringToNumber s =
     (let t = trim s;
          dec = (case decimal_prefix t of
                   Some (v, []) \<Rightarrow> v
                 | _ \<Rightarrow> NaN)
      in case t of
           [] \<Rightarrow> Fin 0
         | [c] \<Rightarrow> dec
         | c # r # ds \<Rightarrow>
             (case (if c = CHR ''0'' then radix_of r else None) of
                None \<Rightarrow> dec
              | Some b \<Rightarrow>
                  (case (if ds = [] then None else radix_value b 0 ds) of
                     None \<Rightarrow> NaN
                   | Some n \<Rightarrow> fl False (of_int n))))"

text \<open>
  The values that \<^verbatim>\<open>metadata.format.duration\<close> takes: ffprobe reports a number, or a
  string such as \<^verbatim>\<open>N/A\<close> when it knows none. A string is truthy when it is not
  empty.
\<close>

datatype jsval = JNum jsnum | JStr string

fun truthy :: "jsval \<Rightarrow> bool" where
  "truthy (JNum n) = truthy_num n"
| "truthy (JStr s) = (s \<noteq> [])"

fun ToNumber :: "jsval \<Rightarrow> jsnum" where
  "ToNumber (JNum n) = n"
| "ToNumber (JStr s) = StringToNumber s"

section \<open>The job store and the file system\<close>

datatype job_status = Queued | Processing | Error | Ready

text \<open>
  The argument of the \<^verbatim>\<open>progress\<close> event: an object with an optional \<^verbatim>\<open>timemark\<close>
  string and a \<^verbatim>\<open>percent\<close> that is \<open>Some v\<close> when \<^verbatim>\<open>typeof progress.percent\<close> is
  \<^verbatim>\<open>'number'\<close> (selector \<open>progress_percent\<close>, since \<open>percent\<close> names the job's field).
  Its other fields (frames, fps, ...) are never read by the server.
\<close>

datatype progress = Progress (timemark: "string option") (progress_percent: "jsnum option")

text \<open>
  A job record is a JavaScript object literal: every field is optional but the status.
  \<open>raw\<close> is \<open>Some v\<close> once the field has been assigned; \<open>v\<close> is \<open>None\<close> for a
  null or undefined event argument.
\<close>

record job =
  status :: job_status
  percent :: "jsnum option"
  error :: "string option"
  createdAt :: "string option"
  startedAt :: "string option"
  finishedAt :: "string option"
  raw :: "progress option option"

text \<open>
  The object literals that the handlers assign to \<^verbatim>\<open>progressStore[id]\<close>: every
  assignment replaces the whole record. The \<^verbatim>\<open>error\<close> field holds the message when
  it is a string.
\<close>

definition queued_job :: "string \<Rightarrow> job" where
  "queued_job now =
     \<lparr>status = Queued, percent = Some (Fin 0), error = None, createdAt = Some now,
      startedAt = None, finishedAt = None, raw = None\<rparr>"

definition error_job :: "string option \<Rightarrow> job" where
  "error_job msg =
     \<lparr>status = Error, percent = None, error = msg, createdAt = None,
      startedAt = None, finishedAt = None, raw = None\<rparr>"

definition processing_job :: "string \<Rightarrow> job" where
  "processing_job now =
     \<lparr>status = Processing, percent = Some (Fin 0), error = None, createdAt = None,
      startedAt = Some now, finishedAt = None, raw = None\<rparr>"

definition ready_job :: "string \<Rightarrow> job" where
  "ready_job now =
     \<lparr>status = Ready, percent = Some (Fin 100), error = None, createdAt = None,
      startedAt = None, finishedAt = Some now, raw = None\<rparr>"

text \<open>
  One call of the fluent-ffmpeg builder, in the order server.js makes them; a command
  that was run is its input path and its calls.
\<close>

datatype builder_call =
    VideoCodec string | VideoFilters string | NoVideo
  | AudioCodec string | AudioBitrate string | NoAudio
  | OutputOptions "string list" | Output string

record ffmpeg_command =
  input :: string
  calls :: "builder_call list"

text \<open>
  The server's state: the in-memory \<^verbatim>\<open>progressStore\<close> (own properties only), the
  uploaded files present on disk, and the ffmpeg commands run so far.
\<close>

record server =
  progressStore :: "string \<rightharpoonup> job"
  uploads :: "string set"
  commands :: "ffmpeg_command list"

datatype fs_error = ENOENT

text \<open>\<^verbatim>\<open>fs.unlinkSync(p)\<close> throws when the file is not there.\<close>

definition unlinkSync :: "string \<Rightarrow> string set \<Rightarrow> fs_error + string set" where
  "unlinkSync p fs = (if p \<in> fs then Inr (fs - {p}) else Inl ENOENT)"

text \<open>\<^verbatim>\<open>try { fs.unlinkSync(inputPath); } catch (e) { /* ignore */ }\<close>\<close>

definition try_unlink :: "string \<Rightarrow> server \<Rightarrow> server" where
  "try_unlink p s =
     (case unlinkSync p (uploads s) of
        Inl e \<Rightarrow> s
      | Inr fs \<Rightarrow> s\<lparr>uploads := fs\<rparr>)"

definition store_job :: "string \<Rightarrow> job \<Rightarrow> server \<Rightarrow> server" where
  "store_job jobId j s = s\<lparr>progressStore := (progressStore s)(jobId \<mapsto> j)\<rparr>"

section \<open>Directive building\<close>

text \<open>Lines 94 to 97: the parts pushed, and the parts joined with a space.\<close>

definition adaptationSetParts :: "bool \<Rightarrow> bool \<Rightarrow> string list" where
  "adaptationSetParts hasVideo hasAudio =
     (let parts = [];
          parts = (if hasVideo then parts @ [''id=0,streams=v''] else parts);
          parts = (if hasAudio then parts @ [''id=1,streams=a''] else parts)
      in parts)"

definition adaptationSetsArg :: "bool \<Rightarrow> bool \<Rightarrow> string" where
  "adaptationSetsArg hasVideo hasAudio = join '' '' (adaptationSetParts hasVideo hasAudio)"

definition baseOutputOptions :: "bool \<Rightarrow> bool \<Rightarrow> string list" where
  "baseOutputOptions hasVideo hasAudio =
     [''-map'', ''0'',
      ''-f'', ''webm_dash_manifest'',
      ''-adaptation_sets'', adaptationSetsArg hasVideo hasAudio,
      ''-seg_duration'', ''4'',
      ''-window_size'', ''5'',
      ''-extra_window_size'', ''5'',
      ''-use_timeline'', ''1'',
      ''-use_template'', ''1'',
      ''-loglevel'', ''info'']"

text \<open>
  \<^verbatim>\<open>path.join(DASH_ROOT, id, 'manifest.mpd')\<close>, written relative to the server's
  directory \<^verbatim>\<open>__dirname\<close>, which is not part of the model; the identifier is a
  UUID, so there is nothing for \<^verbatim>\<open>path.join\<close> to normalise.
\<close>

definition manifestPath :: "string \<Rightarrow> string" where
  "manifestPath jobId = ''public/dash/'' @ jobId @ ''/manifest.mpd''"

definition build_command :: "string \<Rightarrow> string \<Rightarrow> bool \<Rightarrow> bool \<Rightarrow> ffmpeg_command" where
  "build_command inputPath jobId hasVideo hasAudio =
     \<lparr>input = inputPath,
      calls =
        (if hasVideo
         then [VideoCodec ''libvpx-vp9'', VideoFilters ''scale=-2:720'',
               OutputOptions [''-crf'', ''30'', ''-b:v'', ''0'', ''-g'', ''240'',
                              ''-tile-columns'', ''4'', ''-threads'', ''8'']]
         else [NoVideo]) @
        (if hasAudio
         then [AudioCodec ''libopus'', AudioBitrate ''96k'',
               OutputOptions [''-ar'', ''48000'', ''-ac'', ''2'']]
         else [NoAudio]) @
        [OutputOptions (baseOutputOptions hasVideo hasAudio), Output (manifestPath jobId)]\<rparr>"

section \<open>The upload handler and the probe callback\<close>

datatype upload_response =
    NoFile400
  | Uploaded200 (id_of: string) (manifestUrl: string) (statusUrl: string)

text \<open>
  \<^verbatim>\<open>POST /upload\<close>. \<open>file\<close> is \<^verbatim>\<open>req.file\<close> (its path), \<open>jobId\<close> the value of
  \<^verbatim>\<open>uuidv4()\<close>, \<open>now\<close> the value of \<^verbatim>\<open>new Date().toISOString()\<close> and \<open>base\<close> is
  protocol and host. The probe runs later: its callback is the next function. The
  output directory that the handler creates is not part of the state. A UUID is never
  a property name of \<^verbatim>\<open>Object.prototype\<close>, so the handlers' reads and writes of
  \<^verbatim>\<open>progressStore[id]\<close> concern own properties only.
\<close>

definition upload :: "string option \<Rightarrow> string \<Rightarrow> string \<Rightarrow> string \<Rightarrow> server
    \<Rightarrow> upload_response \<times> server" where
  "upload file jobId now base s =
     (case file of
        None \<Rightarrow> (NoFile400, s)
      | Some inputPath \<Rightarrow>
          (Uploaded200 jobId (base @ ''/dash/'' @ jobId @ ''/manifest.mpd'')
             (base @ ''/status/'' @ jobId),
           store_job jobId (queued_job now) s))"

text \<open>
  What \<^verbatim>\<open>ffprobe\<close> hands to its callback: an error, or the metadata, of which the
  server reads \<^verbatim>\<open>format.duration\<close> (a number or a string; \<open>None\<close> when the field
  or \<^verbatim>\<open>format\<close> is missing) and the \<^verbatim>\<open>codec_type\<close> of every stream.
\<close>

record metadata =
  format_duration :: "jsval option"
  streams :: "string list"

datatype probe_result = ProbeError | ProbeOk metadata

text \<open>
  The listeners of one job: before the probe callback is called there is none; the
  callback either returns without a command (\<open>Finished\<close>) or starts the ffmpeg command
  with its event handlers, which close over the duration and stay registered.
\<close>

datatype worker = AwaitingProbe | Encoding "jsval option" | Finished

text \<open>Line 78: the duration when it is truthy, else null.\<close>

definition duration_of :: "metadata \<Rightarrow> jsval option" where
  "duration_of m =
     (case format_duration m of
        None \<Rightarrow> None
      | Some d \<Rightarrow> if truthy d then Some d else None)"

definition ffprobe_callback :: "string \<Rightarrow> string \<Rightarrow> string \<Rightarrow> probe_result \<Rightarrow> server
    \<Rightarrow> worker \<times> server" where
  "ffprobe_callback jobId inputPath now res s =
     (case res of
        ProbeError \<Rightarrow>
          (Finished, store_job jobId (error_job (Some ''Could not read video metadata.'')) s)
      | ProbeOk m \<Rightarrow>
          (let duration = duration_of m;
               hasVideo = list_ex (\<lambda>t. t = ''video'') (streams m);
               hasAudio = list_ex (\<lambda>t. t = ''audio'') (streams m)
           in if \<not> hasVideo \<and> \<not> hasAudio
              then (Finished,
                    try_unlink inputPath
                      (store_job jobId (error_job (Some ''Input has no audio or video streams.'')) s))
              else (let s1 = store_job jobId (processing_job now) s
                    in (Encoding duration,
                        s1\<lparr>commands := commands s1 @
                              [build_command inputPath jobId hasVideo hasAudio]\<rparr>))))"

section \<open>The ffmpeg event handlers\<close>

text \<open>
  Line 158: the seconds of a time mark of three fields. Any field that does not
  parse makes the sum NaN.
\<close>

definition timemark_seconds :: "string \<Rightarrow> string \<Rightarrow> string \<Rightarrow> jsnum" where
  "timemark_seconds h m sec =
     js_add (js_add (js_mul (parseInt h) (Fin 3600)) (js_mul (parseInt m) (Fin 60)))
       (parseFloat sec)"

text \<open>
  Lines 155 to 165: the value the handler assigns to \<^verbatim>\<open>progressStore[id].percent\<close>,
  or \<open>None\<close> when it assigns nothing. \<open>duration\<close> is the value the probe callback
  computed; the event argument is \<open>None\<close> when it is null or undefined. A string is
  truthy when it is not empty. The division converts a string duration to a number.
\<close>

definition interpret_progress :: "jsval option \<Rightarrow> progress option \<Rightarrow> jsnum option" where
  "interpret_progress duration progress =
     (case progress of
        None \<Rightarrow> None
      | Some p \<Rightarrow>
          (case (duration, timemark p) of
             (Some d, Some tm) \<Rightarrow>
               if truthy d \<and> tm \<noteq> [] then
                 (case split (CHR '':'') tm of
                    [h, m, sec] \<Rightarrow>
                      Some (Math_min (Fin 100)
                        (Math_floor
                           (js_mul (js_div (timemark_seconds h m sec) (ToNumber d)) (Fin 100))))
                  | _ \<Rightarrow> None)
               else
                 (case progress_percent p of
                    Some v \<Rightarrow> Some (Math_min (Fin 100) (Math_floor v))
                  | None \<Rightarrow> None)
           | _ \<Rightarrow>
               (case progress_percent p of
                  Some v \<Rightarrow> Some (Math_min (Fin 100) (Math_floor v))
                | None \<Rightarrow> None)))"

datatype js_error = TypeError

text \<open>
  The \<^verbatim>\<open>progress\<close> handler. Writing a property of \<^verbatim>\<open>progressStore[id]\<close> throws when
  there is no record; line 166 is reached by every event.
\<close>

definition on_progress :: "jsval option \<Rightarrow> string \<Rightarrow> progress option \<Rightarrow> server
    \<Rightarrow> js_error + server" where
  "on_progress duration jobId progress s =
     (case progressStore s jobId of
        None \<Rightarrow> Inl TypeError
      | Some j \<Rightarrow>
          (let j1 = (case interpret_progress duration progress of
                       None \<Rightarrow> j
                     | Some v \<Rightarrow> j\<lparr>percent := Some v\<rparr>)
           in Inr (store_job jobId (j1\<lparr>raw := Some progress\<rparr>) s)))"

text \<open>The \<^verbatim>\<open>error\<close> handler; \<open>msg\<close> is \<^verbatim>\<open>err && err.message\<close> when that is a string.\<close>

definition on_error :: "string \<Rightarrow> string \<Rightarrow> string option \<Rightarrow> server \<Rightarrow> server" where
  "on_error jobId inputPath msg s = try_unlink inputPath (store_job jobId (error_job msg) s)"

text \<open>The \<^verbatim>\<open>end\<close> handler.\<close>

definition on_end :: "string \<Rightarrow> string \<Rightarrow> string \<Rightarrow> server \<Rightarrow> server" where
  "on_end jobId inputPath now s = try_unlink inputPath (store_job jobId (ready_job now) s)"

section \<open>One job's events\<close>

text \<open>
  What reaches one job's code after its upload: the call of the probe callback, and
  the events of the ffmpeg command. The callback is the one pending call of
  \<^verbatim>\<open>ffprobe\<close>. The handlers of lines 153 to 179 exist once the callback has started
  the command; from then on every event runs its handler, whatever the job's status
  is, since no handler tests it. An event for which no handler is registered changes
  nothing. Events that read the clock carry its value.
\<close>

datatype event =
    Probed string probe_result
  | ProgressEvent "progress option"
  | ErrorEvent "string option"
  | EndEvent string

fun step :: "string \<Rightarrow> string \<Rightarrow> event \<Rightarrow> worker \<times> server \<Rightarrow> js_error + worker \<times> server" where
  "step jobId inputPath (Probed now res) (AwaitingProbe, s) =
     Inr (ffprobe_callback jobId inputPath now res s)"
| "step jobId inputPath (ProgressEvent p) (Encoding d, s) =
     (case on_progress d jobId p s of
        Inl e \<Rightarrow> Inl e
      | Inr s1 \<Rightarrow> Inr (Encoding d, s1))"
| "step jobId inputPath (ErrorEvent msg) (Encoding d, s) =
     Inr (Encoding d, on_error jobId inputPath msg s)"
| "step jobId inputPath (EndEvent now) (Encoding d, s) =
     Inr (Encoding d, on_end jobId inputPath now s)"
| "step jobId inputPath ev (w, s) = Inr (w, s)"

fun run :: "string \<Rightarrow> string \<Rightarrow> event list \<Rightarrow> worker \<times> server
    \<Rightarrow> js_error + worker \<times> server" where
  "run jobId inputPath [] ws = Inr ws"
| "run jobId inputPath (ev # evs) ws =
     (case step jobId inputPath ev ws of
        Inl e \<Rightarrow> Inl e
      | Inr ws1 \<Rightarrow> run jobId inputPath evs ws1)"

section \<open>The status endpoint\<close>

text \<open>
  \<^verbatim>\<open>progressStore\<close> is a plain object literal, so \<^verbatim>\<open>progressStore[id]\<close> with a
  name that is not an own property is looked up on \<^verbatim>\<open>Object.prototype\<close>. These are
  its property names; \<^verbatim>\<open>__proto__\<close> yields the prototype object itself, every other
  one a function.
\<close>

definition Object_prototype_keys :: "string list" where
  "Object_prototype_keys =
     [''constructor'', ''__defineGetter__'', ''__defineSetter__'', ''hasOwnProperty'',
      ''__lookupGetter__'', ''__lookupSetter__'', ''isPrototypeOf'',
      ''propertyIsEnumerable'', ''toString'', ''valueOf'', ''__proto__'',
      ''toLocaleString'']"

datatype property = Undefined | OwnJob job | Inherited string

definition progressStore_get :: "server \<Rightarrow> string \<Rightarrow> property" where
  "progressStore_get s jobId =
     (case progressStore s jobId of
        Some j \<Rightarrow> OwnJob j
      | None \<Rightarrow> if jobId \<in> set Object_prototype_keys then Inherited jobId else Undefined)"

text \<open>
  A response: the HTTP status and what \<^verbatim>\<open>res.json\<close> sends. \<^verbatim>\<open>JSON.stringify\<close> of
  the prototype object is \<^verbatim>\<open>{}\<close>, and of a function it is undefined, which sends no
  body.
\<close>

datatype body = ErrorBody string | JobBody job | EmptyObjectBody | NoBody

datatype response = Response (code: nat) (body: body)

text \<open>\<^verbatim>\<open>GET /status/:id\<close>: objects and functions are truthy.\<close>

definition get_status :: "string \<Rightarrow> server \<Rightarrow> response" where
  "get_status jobId s =
     (case progressStore_get s jobId of
        Undefined \<Rightarrow> Response 404 (ErrorBody ''id not found'')
      | OwnJob j \<Rightarrow> Response 200 (JobBody j)
      | Inherited k \<Rightarrow>
          Response 200 (if k = ''__proto__'' then EmptyObjectBody else NoBody))"

text \<open>The server at start: no job, no upload, no command.\<close>

definition initial :: server where
  "initial = \<lparr>progressStore = Map.empty, uploads = {}, commands = []\<rparr>"

section \<open>Runs and what they leave in the store\<close>

text \<open>
  The server when the upload middleware has written the file and no job exists yet;
  the job right after \<^verbatim>\<open>POST /upload\<close> has answered; and the record a run leaves
  in the store.
\<close>

definition on_disk :: "string \<Rightarrow> server" where
  "on_disk inputPath = initial\<lparr>uploads := {inputPath}\<rparr>"

definition submitted :: "string \<Rightarrow> string \<Rightarrow> string \<Rightarrow> server \<Rightarrow> worker \<times> server" where
  "submitted inputPath jobId now s =
     (AwaitingProbe, snd (upload (Some inputPath) jobId now ''http://localhost:3000'' s))"

definition stored :: "js_error + worker \<times> server \<Rightarrow> string \<Rightarrow> job option" where
  "stored r jobId = (case r of Inl e \<Rightarrow> None | Inr (w, s) \<Rightarrow> progressStore s jobId)"

text \<open>Probe output for a file of 60 seconds with a video and an audio stream.\<close>

definition both_streams_60 :: metadata where
  "both_streams_60 =
     \<lparr>format_duration = Some (JNum (Fin 60)), streams = [''video'', ''audio'']\<rparr>"

section \<open>The specification's reading of a progress event\<close>

text \<open>
  The condition of line 155 for an event object: the duration is truthy and the time
  mark is a non-empty string.
\<close>

definition marker_present :: "jsval option \<Rightarrow> progress \<Rightarrow> bool" where
  "marker_present duration p =
     (case (duration, timemark p) of
        (Some d, Some tm) \<Rightarrow> truthy d \<and> tm \<noteq> []
      | _ \<Rightarrow> False)"

text \<open>
  A well-formed marker \<^verbatim>\<open>HH:MM:SS(.frac)\<close>: three fields separated by colons, each
  a non-empty run of decimal digits, the last with an optional fraction.
\<close>

definition all_digits :: "string \<Rightarrow> bool" where
  "all_digits ds = (ds \<noteq> [] \<and> list_all is_digit ds)"

definition well_formed_seconds :: "string \<Rightarrow> bool" where
  "well_formed_seconds sec =
     (case split (CHR ''.'') sec of
        [i] \<Rightarrow> all_digits i
      | [i, f] \<Rightarrow> all_digits i \<and> all_digits f
      | _ \<Rightarrow> False)"

definition well_formed_timemark :: "string \<Rightarrow> bool" where
  "well_formed_timemark tm =
     (case split (CHR '':'') tm of
        [h, m, sec] \<Rightarrow> all_digits h \<and> all_digits m \<and> well_formed_seconds sec
      | _ \<Rightarrow> False)"

text \<open>The seconds such a marker denotes, read as decimal notation.\<close>

definition decimal_value :: "string \<Rightarrow> rat" where
  "decimal_value sec =
     (case split (CHR ''.'') sec of
        [i, f] \<Rightarrow> of_int (digits_value i) + of_int (digits_value f) / 10 ^ length f
      | _ \<Rightarrow> of_int (digits_value sec))"

definition elapsedSeconds :: "string \<Rightarrow> rat" where
  "elapsedSeconds tm =
     (case split (CHR '':'') tm of
        [h, m, sec] \<Rightarrow>
          of_int (digits_value h) * 3600 + of_int (digits_value m) * 60 + decimal_value sec
      | _ \<Rightarrow> 0)"

text \<open>
  The same seconds as binary64 arithmetic yields them: each field's decimal reading
  is rounded to a number, and so is every product and sum.
\<close>

definition marker_seconds :: "string \<Rightarrow> jsnum" where
  "marker_seconds tm =
     (case split (CHR '':'') tm of
        [h, m, sec] \<Rightarrow>
          js_add
            (js_add (js_mul (fl False (of_int (digits_value h))) (Fin 3600))
                    (js_mul (fl False (of_int (digits_value m))) (Fin 60)))
            (fl False (decimal_value sec))
      | _ \<Rightarrow> NaN)"

text \<open>
  The Progress Interpreter as the specification words it (section 4.4), over the
  reals: with a well-formed marker and a known duration (a number that is not zero),
  floor(min(100, 100 * elapsed / total)); else, with a direct percent,
  floor(min(100, value)); else no update.
\<close>

definition spec_direct :: "progress \<Rightarrow> jsnum option" where
  "spec_direct p =
     (case progress_percent p of
        None \<Rightarrow> None
      | Some v \<Rightarrow> Some (Math_floor (Math_min (Fin 100) v)))"

definition spec_interpret :: "jsval option \<Rightarrow> progress option \<Rightarrow> jsnum option" where
  "spec_interpret duration progress =
     (case progress of
        None \<Rightarrow> None
      | Some p \<Rightarrow>
          (case (timemark p, duration) of
             (Some tm, Some (JNum (Fin d))) \<Rightarrow>
               if well_formed_timemark tm \<and> d \<noteq> 0
               then Some (Fin (of_int \<lfloor>min 100 (100 * elapsedSeconds tm / d)\<rfloor>))
               else spec_direct p
           | _ \<Rightarrow> spec_direct p))"

text \<open>
  An integer percent in [0,100], where -0 counts as 0; the values the handler can
  store at all: an integer that is at most 100, NaN, or minus infinity; and the
  numbers that are positive, +0 or plus infinity.
\<close>

definition is_percent :: "jsnum \<Rightarrow> bool" where
  "is_percent v =
     (case v of
        Fin a \<Rightarrow> a = of_int \<lfloor>a\<rfloor> \<and> 0 \<le> a \<and> a \<le> 100
      | NegZero \<Rightarrow> True
      | _ \<Rightarrow> False)"

definition clamped :: "jsnum \<Rightarrow> bool" where
  "clamped v =
     (case v of
        Fin a \<Rightarrow> a = of_int \<lfloor>a\<rfloor> \<and> a \<le> 100
      | NegZero \<Rightarrow> True
      | NaN \<Rightarrow> True
      | NegInf \<Rightarrow> True
      | PosInf \<Rightarrow> False)"

definition nonneg :: "jsnum \<Rightarrow> bool" where
  "nonneg x =
     (case x of
        Fin a \<Rightarrow> 0 \<le> a
      | PosInf \<Rightarrow> True
      | _ \<Rightarrow> False)"

section \<open>Timestamps and the job's status\<close>










section \<open>Properties\<close>

subsection \<open>Store and file system after the basic operations\<close>

lemma progressStore_store_job:
  "progressStore (store_job jobId j s) k = (if k = jobId then Some j else progressStore s k)"
  by (simp add: store_job_def)

lemma uploads_store_job: "uploads (store_job jobId j s) = uploads s"
  by (simp add: store_job_def)

lemma commands_store_job: "commands (store_job jobId j s) = commands s"
  by (simp add: store_job_def)

lemma progressStore_try_unlink: "progressStore (try_unlink p s) = progressStore s"
  by (simp add: try_unlink_def unlinkSync_def)

lemma commands_try_unlink: "commands (try_unlink p s) = commands s"
  by (simp add: try_unlink_def unlinkSync_def)

lemma uploads_try_unlink: "uploads (try_unlink p s) = uploads s - {p}"
  by (auto simp: try_unlink_def unlinkSync_def)

subsection \<open>The end of a successful encoding\<close>

text \<open>
  Claim C3. When ffmpeg emits \<^verbatim>\<open>end\<close> for a job that is being encoded, whatever the
  server's state (so whatever percent the last progress event left), the job's record
  becomes the ready record: status ready, percent exactly 100, \<^verbatim>\<open>finishedAt\<close> set to
  the time of the event; and the uploaded file is no longer on disk.
\<close>

theorem end_event_ready:
  "step jobId inputPath (EndEvent now) (Encoding d, s) =
     Inr (Encoding d, on_end jobId inputPath now s)
   \<and> progressStore (on_end jobId inputPath now s) jobId = Some (ready_job now)
   \<and> status (ready_job now) = Ready
   \<and> percent (ready_job now) = Some (Fin 100)
   \<and> finishedAt (ready_job now) = Some now
   \<and> inputPath \<notin> uploads (on_end jobId inputPath now s)"
  by (simp add: on_end_def progressStore_try_unlink progressStore_store_job
      uploads_try_unlink ready_job_def)

subsection \<open>The adaptation-sets directive\<close>

text \<open>
  Claim C4. When at least one of video and audio is present, the parts are the video
  entry with set id 0 if video is present followed by the audio entry with set id 1 if
  audio is present; the directive is these entries with one space between them (so
  splitting it at spaces gives the entries back, and no entry holds a space), and with
  both present it is not the comma-joined list.
\<close>

theorem adaptation_sets_space_separated:
  assumes "hasVideo \<or> hasAudio"
  shows "adaptationSetParts hasVideo hasAudio =
           (if hasVideo then [''id=0,streams=v''] else []) @
           (if hasAudio then [''id=1,streams=a''] else [])
       \<and> split (CHR '' '') (adaptationSetsArg hasVideo hasAudio) =
           adaptationSetParts hasVideo hasAudio
       \<and> adaptationSetsArg hasVideo hasAudio =
           (if hasVideo \<and> hasAudio then ''id=0,streams=v'' @ '' '' @ ''id=1,streams=a''
            else if hasVideo then ''id=0,streams=v'' else ''id=1,streams=a'')
       \<and> (\<forall>e \<in> set (adaptationSetParts hasVideo hasAudio). CHR '' '' \<notin> set e)
       \<and> (hasVideo \<and> hasAudio \<longrightarrow>
            adaptationSetsArg hasVideo hasAudio \<noteq>
              join '','' (adaptationSetParts hasVideo hasAudio))"
  using assms
  by (cases hasVideo; cases hasAudio)
     (simp_all add: adaptationSetsArg_def adaptationSetParts_def)

theorem adaptation_sets_space_separated_witness:
  "(True \<or> True)
   \<and> adaptationSetParts True True = [''id=0,streams=v'', ''id=1,streams=a'']
   \<and> split (CHR '' '') (adaptationSetsArg True True) = [''id=0,streams=v'', ''id=1,streams=a'']
   \<and> adaptationSetsArg True True = ''id=0,streams=v id=1,streams=a''
   \<and> adaptationSetsArg True True \<noteq> ''id=0,streams=v,id=1,streams=a''"
  using adaptation_sets_space_separated [of True True] by simp

text \<open>
  Claim C5. When exactly one of video and audio is present, the directive has exactly
  one entry and is that entry: it is not empty, holds no separating space, and is
  the video entry or the audio entry.
\<close>

theorem single_stream_one_entry:
  assumes "hasVideo \<noteq> hasAudio"
  shows "length (adaptationSetParts hasVideo hasAudio) = 1
       \<and> adaptationSetsArg hasVideo hasAudio \<noteq> []
       \<and> adaptationSetsArg hasVideo hasAudio = hd (adaptationSetParts hasVideo hasAudio)
       \<and> CHR '' '' \<notin> set (adaptationSetsArg hasVideo hasAudio)
       \<and> adaptationSetsArg hasVideo hasAudio =
           (if hasVideo then ''id=0,streams=v'' else ''id=1,streams=a'')"
  using assms
  by (cases hasVideo; cases hasAudio)
     (simp_all add: adaptationSetsArg_def adaptationSetParts_def)

theorem single_stream_one_entry_witness:
  "False \<noteq> True
   \<and> length (adaptationSetParts False True) = 1
   \<and> adaptationSetsArg False True = ''id=1,streams=a''"
  using single_stream_one_entry [of False True] by auto

subsection \<open>Numbers and parsing\<close>

lemma Math_min_floor: "Math_min (Fin 100) (Math_floor x) = Math_floor (Math_min (Fin 100) x)"
proof (cases x)
  case (Fin a)
  have "min (100::rat) (of_int \<lfloor>a\<rfloor>) = of_int \<lfloor>min 100 a\<rfloor>"
  proof (cases "a < 100")
    case True
    then have "\<lfloor>a\<rfloor> < 100" by linarith
    then have "(of_int \<lfloor>a\<rfloor> :: rat) < 100" by (metis of_int_less_numeral_iff)
    with True show ?thesis by (simp add: min_def)
  next
    case False
    then have "100 \<le> \<lfloor>a\<rfloor>" by linarith
    then have "(100::rat) \<le> of_int \<lfloor>a\<rfloor>" by (metis of_int_numeral of_int_le_iff)
    with False show ?thesis by (simp add: min_def)
  qed
  with Fin show ?thesis by simp
qed simp_all

lemma Math_min_floor_clamped: "clamped (Math_min (Fin 100) (Math_floor x))"
proof (cases x)
  case (Fin a)
  have "min (100::rat) (of_int \<lfloor>a\<rfloor>) = of_int (min 100 \<lfloor>a\<rfloor>)" by (simp add: of_int_min)
  moreover have "(of_int (min 100 \<lfloor>a\<rfloor>) :: rat) \<le> 100"
    by (metis min.cobounded1 of_int_le_iff of_int_numeral)
  ultimately show ?thesis using Fin by (simp add: clamped_def)
qed (simp_all add: clamped_def)

lemma Math_min_floor_percent:
  assumes "js_le (Fin 0) x"
  shows "is_percent (Math_min (Fin 100) (Math_floor x))"
proof (cases x)
  case (Fin a)
  with assms have a: "0 \<le> a" by simp
  have eq: "min (100::rat) (of_int \<lfloor>a\<rfloor>) = of_int (min 100 \<lfloor>a\<rfloor>)" by (simp add: of_int_min)
  have "(of_int (min 100 \<lfloor>a\<rfloor>) :: rat) \<le> 100"
    by (metis min.cobounded1 of_int_le_iff of_int_numeral)
  moreover from a have "0 \<le> min 100 \<lfloor>a\<rfloor>" by simp
  then have "(0::rat) \<le> of_int (min 100 \<lfloor>a\<rfloor>)" by (metis of_int_0_le_iff)
  ultimately show ?thesis using Fin eq by (simp add: is_percent_def)
next
  case PosInf
  then show ?thesis by (simp add: is_percent_def)
next
  case NegZero
  then show ?thesis by (simp add: is_percent_def)
qed (use assms in simp_all)

lemma nonneg_js_le: "nonneg x \<Longrightarrow> js_le (Fin 0) x"
  by (cases x) (simp_all add: nonneg_def)

text \<open>
  Rounding at known values: 0.1 is 3602879701896397 / 2 ^ 55 in binary64, the odd
  integer 2 ^ 53 + 1 rounds to the even 2 ^ 53, and 29 / 100 * 100 is less than 29.
\<close>

lemma binary64_examples:
  "fl False (1 / 10) = Fin (3602879701896397 / 36028797018963968)"
  "fl False 9007199254740993 = Fin 9007199254740992"
  "js_mul (js_div (Fin 29) (Fin 100)) (Fin 100) = Fin (8162774324609023 / 281474976710656)"
  by code_simp+

text \<open>Rounding keeps the sign: a value that is not negative is rounded to one.\<close>

lemma pow2_pos: "0 < pow2 k"
  by (simp add: pow2_def)

lemma round_half_even_nonneg: "0 \<le> r \<Longrightarrow> 0 \<le> round_half_even r"
  by (simp add: round_half_even_def Let_def)

lemma round64_nonneg:
  assumes "round64 a = Some v" and "0 \<le> a"
  shows "0 \<le> v"
proof (cases "a = 0")
  case True
  with assms show ?thesis by (simp add: round64_def)
next
  case False
  define k where "k = max (floor_log2 a - 52) (- 1074)"
  from assms False have v: "v = of_int (round_half_even (a / pow2 k)) * pow2 k"
    by (simp add: round64_def Let_def k_def split: if_splits)
  have "0 \<le> a / pow2 k" using assms(2) pow2_pos[of k] by simp
  then have "0 \<le> round_half_even (a / pow2 k)" by (rule round_half_even_nonneg)
  then have "(0::rat) \<le> of_int (round_half_even (a / pow2 k))" by simp
  with pow2_pos[of k] show ?thesis unfolding v by simp
qed

lemma fl_nonneg:
  assumes "0 \<le> x"
  shows "nonneg (fl False x)"
proof (cases "round64 \<bar>x\<bar>")
  case None
  with assms show ?thesis by (simp add: fl_def signed_inf_def nonneg_def)
next
  case (Some v)
  with assms have "0 \<le> v" using round64_nonneg[of "\<bar>x\<bar>" v] by simp
  with Some assms show ?thesis by (simp add: fl_def signed_zero_def nonneg_def)
qed

lemma js_mul_nonneg:
  assumes "nonneg x" and "0 < c"
  shows "nonneg (js_mul x (Fin c))"
proof (cases x)
  case (Fin a)
  with assms have "0 \<le> a * c" by (simp add: nonneg_def)
  then have "nonneg (fl False (a * c))" by (rule fl_nonneg)
  moreover from Fin assms have "\<not> a < 0" by (simp add: nonneg_def)
  ultimately show ?thesis using Fin assms(2) by (simp add: js_mul_def)
next
  case PosInf
  with assms(2) show ?thesis by (simp add: js_mul_def signed_inf_def nonneg_def)
qed (use assms in \<open>simp_all add: nonneg_def\<close>)

lemma js_div_nonneg:
  assumes "nonneg x" and "0 < c"
  shows "nonneg (js_div x (Fin c))"
proof (cases x)
  case (Fin a)
  with assms have "0 \<le> a / c" by (simp add: nonneg_def)
  then have "nonneg (fl False (a / c))" by (rule fl_nonneg)
  moreover from Fin assms have "\<not> a < 0" by (simp add: nonneg_def)
  ultimately show ?thesis using Fin assms(2) by (simp add: js_div_def)
next
  case PosInf
  with assms(2) show ?thesis by (simp add: js_div_def signed_inf_def nonneg_def)
qed (use assms in \<open>simp_all add: nonneg_def\<close>)

lemma js_add_nonneg:
  assumes "nonneg x" and "nonneg y"
  shows "nonneg (js_add x y)"
proof (cases x)
  case x: (Fin a)
  show ?thesis
  proof (cases y)
    case y: (Fin b)
    from x y assms have ab: "0 \<le> a" "0 \<le> b" by (simp_all add: nonneg_def)
    then have "nonneg (fl False (a + b))" by (simp add: fl_nonneg)
    with ab x y show ?thesis by (simp add: js_add_def signed_zero_def nonneg_def)
  next
    case PosInf
    with x show ?thesis by (simp add: js_add_def nonneg_def)
  qed (use assms in \<open>simp_all add: nonneg_def\<close>)
next
  case x: PosInf
  show ?thesis
  proof (cases y)
    case (Fin b)
    with x show ?thesis by (simp add: js_add_def nonneg_def)
  next
    case PosInf
    with x show ?thesis by (simp add: js_add_def nonneg_def)
  qed (use assms in \<open>simp_all add: nonneg_def\<close>)
qed (use assms in \<open>simp_all add: nonneg_def\<close>)

text \<open>NaN is absorbing.\<close>

lemma js_NaN:
  "js_add NaN y = NaN" "js_add x NaN = NaN" "js_mul NaN y = NaN" "js_mul x NaN = NaN"
  "js_div NaN y = NaN" "js_div x NaN = NaN"
  by (simp_all add: js_add_def js_mul_def js_div_def)

lemma is_digit_not_space: "is_digit c \<Longrightarrow> \<not> is_space c"
  by (auto simp: is_digit_def is_space_def)

lemma is_digit_not_sign:
  "is_digit c \<Longrightarrow> c \<noteq> CHR ''-'' \<and> c \<noteq> CHR ''+'' \<and> c \<noteq> CHR ''.'' \<and> c \<noteq> CHR ''I''"
  by (auto simp: is_digit_def)

lemma digits_value_nonneg:
  assumes "list_all is_digit ds"
  shows "0 \<le> digits_value ds"
proof -
  have "0 \<le> foldl (\<lambda>a c. 10 * a + (of_char c - 48)) a ds"
    if "list_all is_digit ds" and "0 \<le> a" for a :: int
    using that
  proof (induction ds arbitrary: a)
    case Nil
    then show ?case by simp
  next
    case (Cons c cs)
    from Cons.prems have "48 \<le> (of_char c :: nat)" by (simp add: is_digit_def)
    then have "48 \<le> (of_nat (of_char c) :: int)" by linarith
    then have "48 \<le> (of_char c :: int)" by (simp only: of_nat_of_char)
    with Cons.prems have "0 \<le> 10 * a + (of_char c - 48)" by simp
    with Cons show ?case by simp
  qed
  with assms show ?thesis by (simp add: digits_value_def)
qed

lemma all_digits_prefix:
  assumes "all_digits ds"
  shows "dropWhile is_space (ds @ r) = ds @ r"
    and "strip_sign (ds @ r) = (False, ds @ r)"
    and "take 8 (ds @ r) \<noteq> ''Infinity''"
    and "takeWhile is_digit (ds @ CHR ''.'' # r) = ds"
    and "dropWhile is_digit (ds @ CHR ''.'' # r) = CHR ''.'' # r"
proof -
  from assms obtain c cs where ds: "ds = c # cs" and c: "is_digit c"
    by (cases ds) (auto simp: all_digits_def)
  have dot: "\<not> is_digit (CHR ''.'')" by (simp add: is_digit_def)
  have all: "\<And>x. x \<in> set ds \<Longrightarrow> is_digit x"
    using assms by (auto simp: all_digits_def list_all_iff)
  show "dropWhile is_space (ds @ r) = ds @ r" using ds c by (simp add: is_digit_not_space)
  show "strip_sign (ds @ r) = (False, ds @ r)" using ds c is_digit_not_sign[of c] by simp
  show "take 8 (ds @ r) \<noteq> ''Infinity''" using ds c is_digit_not_sign[of c] by auto
  show "takeWhile is_digit (ds @ CHR ''.'' # r) = ds"
    using all dot by (simp add: takeWhile_append2)
  show "dropWhile is_digit (ds @ CHR ''.'' # r) = CHR ''.'' # r"
    using all dot by (simp add: dropWhile_append2)
qed

lemma all_digits_alone:
  assumes "all_digits ds"
  shows "dropWhile is_space ds = ds"
    and "strip_sign ds = (False, ds)"
    and "take 8 ds \<noteq> ''Infinity''"
    and "takeWhile is_digit ds = ds"
    and "dropWhile is_digit ds = []"
    and "ds \<noteq> []"
proof -
  have all: "\<And>x. x \<in> set ds \<Longrightarrow> is_digit x"
    using assms by (auto simp: all_digits_def list_all_iff)
  show "dropWhile is_space ds = ds" using all_digits_prefix(1)[OF assms, of "[]"] by simp
  show "strip_sign ds = (False, ds)" using all_digits_prefix(2)[OF assms, of "[]"] by simp
  show "take 8 ds \<noteq> ''Infinity''" using all_digits_prefix(3)[OF assms, of "[]"] by simp
  show "takeWhile is_digit ds = ds" using all by simp
  show "dropWhile is_digit ds = []" using all by simp
  show "ds \<noteq> []" using assms by (simp add: all_digits_def)
qed

lemma parseInt_digits:
  assumes "all_digits ds"
  shows "parseInt ds = fl False (of_int (digits_value ds))"
  unfolding parseInt_def by (simp add: all_digits_alone[OF assms] signed_def)

lemma parseFloat_digits:
  assumes "all_digits ds"
  shows "parseFloat ds = fl False (of_int (digits_value ds))"
proof -
  have "digits_value [] = 0" by (simp add: digits_value_def)
  then show ?thesis
    unfolding parseFloat_def decimal_prefix_def
    by (simp add: all_digits_alone[OF assms] exponent_part_def scale10_def signed_def)
qed

lemma parseFloat_fraction:
  assumes "all_digits i" and "all_digits f"
  shows "parseFloat (i @ CHR ''.'' # f) =
           fl False (of_int (digits_value i) + of_int (digits_value f) / 10 ^ length f)"
  unfolding parseFloat_def decimal_prefix_def
  by (simp add: all_digits_prefix[OF assms(1)] all_digits_alone[OF assms(2)]
      all_digits_alone(6)[OF assms(1)] exponent_part_def scale10_def signed_def
      del: take_append)

lemma split_not_Nil: "split c s \<noteq> []"
  by (induction s) (auto split: list.splits)

lemma join_split: "join [c] (split c s) = s"
proof (induction s)
  case Nil
  show ?case by simp
next
  case (Cons x xs)
  obtain y ys where ys: "split c xs = y # ys"
    using split_not_Nil[of c xs] by (cases "split c xs") auto
  with Cons show ?case by (cases ys) auto
qed

lemma split_single: "split c s = [a] \<Longrightarrow> s = a"
  using join_split[of c s] by simp

lemma split_pair: "split c s = [a, b] \<Longrightarrow> s = a @ c # b"
  using join_split[of c s] by simp

lemma well_formed_seconds_cases:
  assumes "well_formed_seconds sec"
  shows "(all_digits sec \<and> split (CHR ''.'') sec = [sec])
       \<or> (\<exists>i f. all_digits i \<and> all_digits f \<and> split (CHR ''.'') sec = [i, f]
            \<and> sec = i @ CHR ''.'' # f)"
proof (cases "split (CHR ''.'') sec")
  case Nil
  with assms show ?thesis by (simp add: well_formed_seconds_def)
next
  case (Cons i r)
  show ?thesis
  proof (cases r)
    case Nil
    with Cons assms have "all_digits i" "sec = i"
      by (simp_all add: well_formed_seconds_def split_single)
    with Cons Nil show ?thesis by simp
  next
    case (Cons f r')
    with \<open>split (CHR ''.'') sec = i # r\<close> assms
    have r': "r' = []" and d: "all_digits i" "all_digits f"
      by (simp_all add: well_formed_seconds_def split: list.splits)
    with Cons \<open>split (CHR ''.'') sec = i # r\<close> have sp: "split (CHR ''.'') sec = [i, f]"
      by simp
    then have "sec = i @ CHR ''.'' # f" by (rule split_pair)
    with sp d show ?thesis by blast
  qed
qed

lemma parseFloat_seconds:
  assumes "well_formed_seconds sec"
  shows "parseFloat sec = fl False (decimal_value sec)"
  using well_formed_seconds_cases[OF assms]
  by (auto simp: decimal_value_def parseFloat_digits parseFloat_fraction)

lemma all_digits_value_nonneg: "all_digits ds \<Longrightarrow> 0 \<le> digits_value ds"
  by (simp add: all_digits_def digits_value_nonneg)

lemma decimal_value_nonneg:
  assumes "well_formed_seconds sec"
  shows "0 \<le> decimal_value sec"
  using well_formed_seconds_cases[OF assms]
  by (auto simp: decimal_value_def all_digits_value_nonneg)

lemma timemark_seconds_well_formed:
  assumes "split (CHR '':'') tm = [h, m, sec]" and "well_formed_timemark tm"
  shows "timemark_seconds h m sec = marker_seconds tm"
  using assms
  by (simp add: well_formed_timemark_def marker_seconds_def timemark_seconds_def
      parseInt_digits parseFloat_seconds)

lemma well_formed_three_fields:
  "well_formed_timemark tm \<Longrightarrow> \<exists>h m sec. split (CHR '':'') tm = [h, m, sec]"
  by (auto simp: well_formed_timemark_def split: list.splits)

lemma marker_seconds_nonneg:
  assumes "well_formed_timemark tm"
  shows "nonneg (marker_seconds tm)"
proof -
  from assms obtain h m sec where sp: "split (CHR '':'') tm = [h, m, sec]"
    using well_formed_three_fields by blast
  with assms have d: "all_digits h" "all_digits m" "well_formed_seconds sec"
    by (simp_all add: well_formed_timemark_def)
  have h: "nonneg (js_mul (fl False (of_int (digits_value h))) (Fin 3600))"
    by (rule js_mul_nonneg) (simp_all add: fl_nonneg all_digits_value_nonneg d)
  have m: "nonneg (js_mul (fl False (of_int (digits_value m))) (Fin 60))"
    by (rule js_mul_nonneg) (simp_all add: fl_nonneg all_digits_value_nonneg d)
  have s: "nonneg (fl False (decimal_value sec))"
    by (rule fl_nonneg) (rule decimal_value_nonneg[OF d(3)])
  from h m s show ?thesis by (simp add: marker_seconds_def sp js_add_nonneg)
qed

subsection \<open>What one progress event is interpreted as\<close>

lemma interpret_progress_direct:
  assumes "\<not> marker_present duration p"
  shows "interpret_progress duration (Some p) = spec_direct p"
  using assms
  by (auto simp: interpret_progress_def marker_present_def spec_direct_def Math_min_floor
      split: option.splits)

lemma interpret_progress_three_fields:
  assumes "truthy d" and "tm \<noteq> []" and "split (CHR '':'') tm = [h, m, sec]"
  shows "interpret_progress (Some d) (Some (Progress (Some tm) pc)) =
           Some (Math_min (Fin 100)
             (Math_floor (js_mul (js_div (timemark_seconds h m sec) (ToNumber d)) (Fin 100))))"
  using assms by (simp add: interpret_progress_def)

lemma interpret_progress_well_formed:
  assumes "truthy d" and "well_formed_timemark tm"
  shows "interpret_progress (Some d) (Some (Progress (Some tm) pc)) =
           Some (Math_min (Fin 100)
             (Math_floor (js_mul (js_div (marker_seconds tm) (ToNumber d)) (Fin 100))))"
proof -
  from assms(2) obtain h m sec where sp: "split (CHR '':'') tm = [h, m, sec]"
    using well_formed_three_fields by blast
  have secs: "timemark_seconds h m sec = marker_seconds tm"
    using sp assms(2) by (rule timemark_seconds_well_formed)
  have ne: "tm \<noteq> []" using sp by auto
  show ?thesis
    using interpret_progress_three_fields[OF assms(1) ne sp, of pc] by (simp only: secs)
qed

lemma interpret_progress_field_count:
  assumes "truthy d" and "tm \<noteq> []" and "length (split (CHR '':'') tm) \<noteq> 3"
  shows "interpret_progress (Some d) (Some (Progress (Some tm) pc)) = None"
  using assms by (auto simp: interpret_progress_def split: list.splits)

lemma timemark_seconds_NaN:
  assumes "parseInt h = NaN \<or> parseInt m = NaN \<or> parseFloat sec = NaN"
  shows "timemark_seconds h m sec = NaN"
  using assms by (auto simp: timemark_seconds_def js_NaN)

lemma interpret_progress_NaN:
  assumes "truthy d" and "tm \<noteq> []" and "split (CHR '':'') tm = [h, m, sec]"
    and "parseInt h = NaN \<or> parseInt m = NaN \<or> parseFloat sec = NaN \<or> ToNumber d = NaN"
  shows "interpret_progress (Some d) (Some (Progress (Some tm) pc)) = Some NaN"
proof -
  from assms(4) have "js_div (timemark_seconds h m sec) (ToNumber d) = NaN"
    using timemark_seconds_NaN[of h m sec] by (auto simp: js_NaN)
  then show ?thesis
    using interpret_progress_three_fields[OF assms(1,2,3), of pc] by (simp add: js_NaN)
qed

lemma interpret_progress_clamped:
  assumes "interpret_progress d p = Some v"
  shows "clamped v"
  using assms Math_min_floor_clamped
  by (auto simp: interpret_progress_def split: option.splits list.splits if_splits)

lemma interpret_progress_percent_marker:
  assumes "well_formed_timemark tm" and "0 < b"
  shows "\<exists>v. interpret_progress (Some (JNum (Fin b))) (Some (Progress (Some tm) pc)) = Some v
           \<and> is_percent v"
proof -
  have t: "truthy (JNum (Fin b))" using assms(2) by simp
  have "nonneg (js_div (marker_seconds tm) (Fin b))"
    using marker_seconds_nonneg[OF assms(1)] assms(2) by (rule js_div_nonneg)
  then have "nonneg (js_mul (js_div (marker_seconds tm) (Fin b)) (Fin 100))"
    by (rule js_mul_nonneg) simp
  then have "is_percent (Math_min (Fin 100) (Math_floor
               (js_mul (js_div (marker_seconds tm) (Fin b)) (Fin 100))))"
    by (intro Math_min_floor_percent nonneg_js_le)
  then show ?thesis
    using interpret_progress_well_formed[OF t assms(1), of pc] by simp
qed

lemma interpret_progress_percent_direct:
  assumes "\<not> marker_present d pp" and "progress_percent pp = Some x" and "js_le (Fin 0) x"
  shows "\<exists>v. interpret_progress d (Some pp) = Some v \<and> is_percent v"
  using interpret_progress_direct[OF assms(1)] assms(2) Math_min_floor_percent[OF assms(3)]
  by (simp add: spec_direct_def Math_min_floor)

lemma on_progress_stored:
  assumes "progressStore s jobId = Some j"
  shows "on_progress d jobId p s =
           Inr (store_job jobId
                  ((case interpret_progress d p of
                      None \<Rightarrow> j
                    | Some v \<Rightarrow> j\<lparr>percent := Some v\<rparr>)\<lparr>raw := Some p\<rparr>) s)"
  using assms by (simp add: on_progress_def)

subsection \<open>The stored percent while a job is processing\<close>

text \<open>
  Claim C1, as amended. The handler takes no maximum: every progress event that is
  interpreted overwrites the stored percent, whatever it was. So after any sequence of
  progress events for a job whose record exists, the handler has not thrown, the
  status is unchanged, and the stored percent is the interpretation of the last event
  of the sequence that was interpreted, or the percent from before the sequence when
  none was.
\<close>

theorem progress_overwrites_percent:
  assumes "progressStore s jobId = Some j"
  shows "\<exists>s' j'. run jobId inputPath (map ProgressEvent ps) (Encoding d, s) = Inr (Encoding d, s')
           \<and> progressStore s' jobId = Some j'
           \<and> status j' = status j
           \<and> percent j' = last (percent j # map Some (List.map_filter (interpret_progress d) ps))"
  using assms
proof (induction ps arbitrary: s j)
  case Nil
  then show ?case by (simp add: List.map_filter_simps)
next
  case (Cons p ps)
  define j1 where "j1 = (case interpret_progress d p of
                      None \<Rightarrow> j
                    | Some v \<Rightarrow> j\<lparr>percent := Some v\<rparr>)\<lparr>raw := Some p\<rparr>"
  define s1 where "s1 = store_job jobId j1 s"
  have step1: "on_progress d jobId p s = Inr s1"
    using on_progress_stored[OF Cons.prems] by (simp add: s1_def j1_def)
  have look: "progressStore s1 jobId = Some j1" by (simp add: s1_def progressStore_store_job)
  from Cons.IH[OF look] obtain s' j' where
    r: "run jobId inputPath (map ProgressEvent ps) (Encoding d, s1) = Inr (Encoding d, s')"
    and l: "progressStore s' jobId = Some j'"
    and st: "status j' = status j1"
    and pc: "percent j' = last (percent j1 # map Some (List.map_filter (interpret_progress d) ps))"
    by blast
  have st1: "status j1 = status j" by (simp add: j1_def split: option.splits)
  have pc1: "last (percent j1 # map Some (List.map_filter (interpret_progress d) ps))
           = last (percent j # map Some (List.map_filter (interpret_progress d) (p # ps)))"
    by (simp add: j1_def List.map_filter_simps split: option.splits)
  from r step1
  have "run jobId inputPath (map ProgressEvent (p # ps)) (Encoding d, s) = Inr (Encoding d, s')"
    by simp
  with l st st1 pc pc1 show ?case by metis
qed

theorem progress_overwrites_percent_witness:
  "progressStore (store_job ''job'' (processing_job ''t1'') initial) ''job''
     = Some (processing_job ''t1'')
   \<and> (\<exists>s' j'. run ''job'' ''uploads/1.mp4''
                 (map ProgressEvent
                    [Some (Progress (Some ''00:00:30.00'') None),
                     Some (Progress (Some ''00:00:10.00'') None),
                     Some (Progress None None)])
                 (Encoding (Some (JNum (Fin 60))), store_job ''job'' (processing_job ''t1'') initial)
                 = Inr (Encoding (Some (JNum (Fin 60))), s')
        \<and> progressStore s' ''job'' = Some j'
        \<and> status j' = Processing
        \<and> percent j' = Some (Fin 16))"
proof -
  have h: "progressStore (store_job ''job'' (processing_job ''t1'') initial) ''job''
     = Some (processing_job ''t1'')" by (simp add: progressStore_store_job)
  have e1: "interpret_progress (Some (JNum (Fin 60))) (Some (Progress (Some ''00:00:30.00'') None))
     = Some (Fin 50)" by code_simp
  have e2: "interpret_progress (Some (JNum (Fin 60))) (Some (Progress (Some ''00:00:10.00'') None))
     = Some (Fin 16)" by code_simp
  have e3: "interpret_progress (Some (JNum (Fin 60))) (Some (Progress None None)) = None" by code_simp
  show ?thesis
    using h progress_overwrites_percent[OF h, of "''uploads/1.mp4''"
        "[Some (Progress (Some ''00:00:30.00'') None),
          Some (Progress (Some ''00:00:10.00'') None),
          Some (Progress None None)]" "Some (JNum (Fin 60))"]
    by (simp add: e1 e2 e3 List.map_filter_simps processing_job_def)
qed

text \<open>
  Claim C1 as stated fails: for a file of 60 seconds, a progress event at
  \<^verbatim>\<open>00:00:30.00\<close> stores 50 and a later one at \<^verbatim>\<open>00:00:10.00\<close> stores 16, while
  the job is still processing.
\<close>

theorem percent_regresses:
  "map_option percent
     (stored (run ''job'' ''uploads/1.mp4''
        [Probed ''t1'' (ProbeOk both_streams_60),
         ProgressEvent (Some (Progress (Some ''00:00:30.00'') None))]
        (submitted ''uploads/1.mp4'' ''job'' ''t0'' (on_disk ''uploads/1.mp4''))) ''job'')
     = Some (Some (Fin 50))
   \<and> map_option percent
     (stored (run ''job'' ''uploads/1.mp4''
        [Probed ''t1'' (ProbeOk both_streams_60),
         ProgressEvent (Some (Progress (Some ''00:00:30.00'') None)),
         ProgressEvent (Some (Progress (Some ''00:00:10.00'') None))]
        (submitted ''uploads/1.mp4'' ''job'' ''t0'' (on_disk ''uploads/1.mp4''))) ''job'')
     = Some (Some (Fin 16))
   \<and> map_option status
     (stored (run ''job'' ''uploads/1.mp4''
        [Probed ''t1'' (ProbeOk both_streams_60),
         ProgressEvent (Some (Progress (Some ''00:00:30.00'') None)),
         ProgressEvent (Some (Progress (Some ''00:00:10.00'') None))]
        (submitted ''uploads/1.mp4'' ''job'' ''t0'' (on_disk ''uploads/1.mp4''))) ''job'')
     = Some Processing
   \<and> \<not> js_le (Fin 50) (Fin 16)"
  by code_simp

subsection \<open>The Progress Interpreter's formula\<close>

text \<open>
  Claim C6, as amended. With a truthy duration (a number that is not zero, or a
  non-empty string) and a non-empty marker of exactly three fields, the interpreted
  percent is min(100, floor((seconds / duration) * 100)) in binary64 arithmetic, the
  seconds being parseInt of the first field times 3600 plus parseInt of the second
  times 60 plus parseFloat of the third, and a string duration being converted to a
  number. For a well-formed marker the fields parse to their decimal readings. The
  result is NaN when a field does not parse or the duration converts to NaN. With a
  truthy duration and a non-empty marker whose field count is not three, nothing is
  assigned, whether or not the event carries a direct percent. When the duration is
  missing or falsy, or the event has no non-empty marker, a direct percent \<open>v\<close> gives
  floor(min(100, v)) and an event without one assigns nothing. A null event assigns
  nothing; and when nothing is assigned the stored percent is retained.
\<close>

theorem interpret_progress_formula:
  "(truthy d \<and> tm \<noteq> [] \<and> split (CHR '':'') tm = [h, m, sec] \<longrightarrow>
      interpret_progress (Some d) (Some (Progress (Some tm) pc)) =
        Some (Math_min (Fin 100)
          (Math_floor (js_mul (js_div (timemark_seconds h m sec) (ToNumber d)) (Fin 100))))
      \<and> (well_formed_timemark tm \<longrightarrow> timemark_seconds h m sec = marker_seconds tm)
      \<and> (parseInt h = NaN \<or> parseInt m = NaN \<or> parseFloat sec = NaN \<or> ToNumber d = NaN \<longrightarrow>
           interpret_progress (Some d) (Some (Progress (Some tm) pc)) = Some NaN))
   \<and> (truthy d \<and> tm \<noteq> [] \<and> length (split (CHR '':'') tm) \<noteq> 3 \<longrightarrow>
      interpret_progress (Some d) (Some (Progress (Some tm) pc)) = None)
   \<and> (\<not> marker_present duration p \<longrightarrow>
      interpret_progress duration (Some p) =
        (case progress_percent p of
           None \<Rightarrow> None
         | Some v \<Rightarrow> Some (Math_floor (Math_min (Fin 100) v))))
   \<and> interpret_progress duration None = None
   \<and> (progressStore s jobId = Some j \<and> interpret_progress duration progress = None \<longrightarrow>
      (\<exists>s' j'. on_progress duration jobId progress s = Inr s'
         \<and> progressStore s' jobId = Some j' \<and> percent j' = percent j))"
proof (intro conjI impI)
  show "interpret_progress duration None = None" by (simp add: interpret_progress_def)
next
  assume "\<not> marker_present duration p"
  then show "interpret_progress duration (Some p) =
        (case progress_percent p of
           None \<Rightarrow> None
         | Some v \<Rightarrow> Some (Math_floor (Math_min (Fin 100) v)))"
    by (simp add: interpret_progress_direct spec_direct_def)
next
  assume "truthy d \<and> tm \<noteq> [] \<and> split (CHR '':'') tm = [h, m, sec]"
  then show "interpret_progress (Some d) (Some (Progress (Some tm) pc)) =
        Some (Math_min (Fin 100)
          (Math_floor (js_mul (js_div (timemark_seconds h m sec) (ToNumber d)) (Fin 100))))"
    by (simp add: interpret_progress_three_fields)
next
  assume "truthy d \<and> tm \<noteq> [] \<and> split (CHR '':'') tm = [h, m, sec]"
    and "well_formed_timemark tm"
  then show "timemark_seconds h m sec = marker_seconds tm"
    by (simp add: timemark_seconds_well_formed)
next
  assume "truthy d \<and> tm \<noteq> [] \<and> split (CHR '':'') tm = [h, m, sec]"
    and "parseInt h = NaN \<or> parseInt m = NaN \<or> parseFloat sec = NaN \<or> ToNumber d = NaN"
  then show "interpret_progress (Some d) (Some (Progress (Some tm) pc)) = Some NaN"
    using interpret_progress_NaN[of d tm h m sec pc] by blast
next
  assume "truthy d \<and> tm \<noteq> [] \<and> length (split (CHR '':'') tm) \<noteq> 3"
  then show "interpret_progress (Some d) (Some (Progress (Some tm) pc)) = None"
    by (simp add: interpret_progress_field_count)
next
  assume a: "progressStore s jobId = Some j \<and> interpret_progress duration progress = None"
  then show "\<exists>s' j'. on_progress duration jobId progress s = Inr s'
         \<and> progressStore s' jobId = Some j' \<and> percent j' = percent j"
    by (simp add: on_progress_stored progressStore_store_job)
qed

theorem interpret_progress_formula_witness:
  "truthy (JNum (Fin 100)) \<and> split (CHR '':'') ''00:00:29.00'' = [''00'', ''00'', ''29.00'']
   \<and> well_formed_timemark ''00:00:29.00''
   \<and> interpret_progress (Some (JNum (Fin 100))) (Some (Progress (Some ''00:00:29.00'') None))
       = Some (Fin 28)
   \<and> timemark_seconds ''00'' ''00'' ''29.00'' = marker_seconds ''00:00:29.00''
   \<and> truthy (JStr ''N/A'') \<and> ToNumber (JStr ''N/A'') = NaN
   \<and> interpret_progress (Some (JStr ''N/A'')) (Some (Progress (Some ''00:00:29.00'') None))
       = Some NaN
   \<and> length (split (CHR '':'') ''N/A'') \<noteq> 3
   \<and> interpret_progress (Some (JNum (Fin 60))) (Some (Progress (Some ''N/A'') (Some (Fin 42))))
       = None
   \<and> \<not> marker_present None (Progress (Some ''00:00:30.00'') (Some (Fin (85 / 2))))
   \<and> interpret_progress None (Some (Progress (Some ''00:00:30.00'') (Some (Fin (85 / 2)))))
       = Some (Fin 42)
   \<and> progressStore (store_job ''job'' (processing_job ''t1'') initial) ''job''
       = Some (processing_job ''t1'')
   \<and> interpret_progress None (Some (Progress None None)) = None
   \<and> (\<exists>s' j'. on_progress None ''job'' (Some (Progress None None))
                 (store_job ''job'' (processing_job ''t1'') initial) = Inr s'
        \<and> progressStore s' ''job'' = Some j' \<and> percent j' = Some (Fin 0))"
proof -
  have h1: "truthy (JNum (Fin 100)) \<and> ''00:00:29.00'' \<noteq> []
      \<and> split (CHR '':'') ''00:00:29.00'' = [''00'', ''00'', ''29.00'']" by simp
  have w1: "well_formed_timemark ''00:00:29.00''" by code_simp
  have v1: "Math_min (Fin 100) (Math_floor
      (js_mul (js_div (timemark_seconds ''00'' ''00'' ''29.00'') (ToNumber (JNum (Fin 100))))
         (Fin 100))) = Fin 28" by code_simp
  have h1b: "truthy (JStr ''N/A'') \<and> ''00:00:29.00'' \<noteq> []
      \<and> split (CHR '':'') ''00:00:29.00'' = [''00'', ''00'', ''29.00'']" by simp
  have n1: "ToNumber (JStr ''N/A'') = NaN" by code_simp
  have h2: "truthy (JNum (Fin 60)) \<and> ''N/A'' \<noteq> [] \<and> length (split (CHR '':'') ''N/A'') \<noteq> 3"
    by simp
  have h3: "\<not> marker_present None (Progress (Some ''00:00:30.00'') (Some (Fin (85 / 2))))"
    by (simp add: marker_present_def)
  have v3: "Math_floor (Math_min (Fin 100) (Fin (85 / 2))) = Fin 42" by code_simp
  have h5: "progressStore (store_job ''job'' (processing_job ''t1'') initial) ''job''
       = Some (processing_job ''t1'')
     \<and> interpret_progress None (Some (Progress None None)) = None"
    by (simp add: progressStore_store_job interpret_progress_def)
  have p0: "percent (processing_job ''t1'') = Some (Fin 0)" by (simp add: processing_job_def)
  note t1 = interpret_progress_formula[where d = "JNum (Fin 100)" and tm = "''00:00:29.00''"
      and h = "''00''" and m = "''00''" and sec = "''29.00''"
      and pc = None and duration = None
      and p = "Progress (Some ''00:00:30.00'') (Some (Fin (85 / 2)))"
      and s = "store_job ''job'' (processing_job ''t1'') initial" and jobId = "''job''"
      and j = "processing_job ''t1''" and progress = "Some (Progress None None)"]
  note t1b = interpret_progress_formula[where d = "JStr ''N/A''" and tm = "''00:00:29.00''"
      and h = "''00''" and m = "''00''" and sec = "''29.00''"
      and pc = None and duration = None
      and p = "Progress (Some ''00:00:30.00'') (Some (Fin (85 / 2)))"
      and s = "store_job ''job'' (processing_job ''t1'') initial" and jobId = "''job''"
      and j = "processing_job ''t1''" and progress = "Some (Progress None None)"]
  note t2 = interpret_progress_formula[where d = "JNum (Fin 60)" and tm = "''N/A''"
      and h = "''00''" and m = "''00''" and sec = "''29.00''"
      and pc = "Some (Fin 42)" and duration = None
      and p = "Progress (Some ''00:00:30.00'') (Some (Fin (85 / 2)))"
      and s = "store_job ''job'' (processing_job ''t1'') initial" and jobId = "''job''"
      and j = "processing_job ''t1''" and progress = "Some (Progress None None)"]
  from t1 h1 have "interpret_progress (Some (JNum (Fin 100)))
      (Some (Progress (Some ''00:00:29.00'') None)) =
        Some (Math_min (Fin 100) (Math_floor
          (js_mul (js_div (timemark_seconds ''00'' ''00'' ''29.00'') (ToNumber (JNum (Fin 100))))
             (Fin 100))))"
    by blast
  then have c1: "interpret_progress (Some (JNum (Fin 100)))
      (Some (Progress (Some ''00:00:29.00'') None)) = Some (Fin 28)"
    by (simp only: v1)
  from t1 h1 w1 have c1w: "timemark_seconds ''00'' ''00'' ''29.00'' = marker_seconds ''00:00:29.00''"
    by blast
  from t1b h1b n1 have c1n: "interpret_progress (Some (JStr ''N/A''))
      (Some (Progress (Some ''00:00:29.00'') None)) = Some NaN"
    by blast
  from t2 h2 have c2: "interpret_progress (Some (JNum (Fin 60)))
      (Some (Progress (Some ''N/A'') (Some (Fin 42)))) = None" by blast
  from t1 h3 have "interpret_progress None
      (Some (Progress (Some ''00:00:30.00'') (Some (Fin (85 / 2))))) =
       (case progress_percent (Progress (Some ''00:00:30.00'') (Some (Fin (85 / 2)))) of
           None \<Rightarrow> None
         | Some v \<Rightarrow> Some (Math_floor (Math_min (Fin 100) v)))"
    by blast
  then have c3: "interpret_progress None
      (Some (Progress (Some ''00:00:30.00'') (Some (Fin (85 / 2))))) = Some (Fin 42)"
    by (simp add: v3 del: Math_floor.simps Math_min.simps)
  from t1 h5 have "\<exists>s' j'. on_progress None ''job'' (Some (Progress None None))
                 (store_job ''job'' (processing_job ''t1'') initial) = Inr s'
        \<and> progressStore s' ''job'' = Some j' \<and> percent j' = percent (processing_job ''t1'')"
    by blast
  then have c5: "\<exists>s' j'. on_progress None ''job'' (Some (Progress None None))
                 (store_job ''job'' (processing_job ''t1'') initial) = Inr s'
        \<and> progressStore s' ''job'' = Some j' \<and> percent j' = Some (Fin 0)"
    by (simp only: p0)
  from h1 w1 h1b n1 h2 h3 h5 c1 c1w c1n c2 c3 c5 show ?thesis by blast
qed

text \<open>
  Claim C6 as stated fails twice. With a known duration, an event whose marker is
  \<^verbatim>\<open>N/A\<close> and whose direct percent is 42 assigns nothing, while the claim's
  formula, having no well-formed marker, takes the direct percent. And for a duration
  of 100 seconds and the marker \<^verbatim>\<open>00:00:29.00\<close> the code stores 28, since 29 / 100
  times 100 is less than 29 in binary64, while the claim's formula gives 29.
\<close>

theorem malformed_marker_blocks_direct_percent:
  "interpret_progress (Some (JNum (Fin 60))) (Some (Progress (Some ''N/A'') (Some (Fin 42))))
     = None
   \<and> spec_interpret (Some (JNum (Fin 60))) (Some (Progress (Some ''N/A'') (Some (Fin 42))))
       = Some (Fin 42)
   \<and> interpret_progress (Some (JNum (Fin 100))) (Some (Progress (Some ''00:00:29.00'') None))
       = Some (Fin 28)
   \<and> spec_interpret (Some (JNum (Fin 100))) (Some (Progress (Some ''00:00:29.00'') None))
       = Some (Fin 29)"
  by code_simp

subsection \<open>The range of the stored percent\<close>

text \<open>
  Claim C7, as amended. For every progress event on a job whose record exists the
  handler does not throw. The stored percent afterwards is the previous one, or a
  value that is an integer at most 100, NaN or minus infinity. With a truthy duration,
  a non-empty marker whose field count is not three never changes it. Without a
  truthy duration or without a non-empty marker, the marker is not examined and a
  direct percent \<open>x\<close> is stored as min(100, floor(x)). The stored percent is an
  integer in [0,100] when the marker is well-formed and the duration is a positive
  number, and when a direct percent that is at least 0 is interpreted.
\<close>

theorem progress_percent_range:
  assumes "progressStore s jobId = Some j"
  shows "\<exists>s' j'. on_progress d jobId p s = Inr s' \<and> progressStore s' jobId = Some j'
     \<and> (percent j' = percent j \<or> (\<exists>v. percent j' = Some v \<and> clamped v))
     \<and> (\<forall>c tm pc. d = Some c \<and> truthy c \<and> p = Some (Progress (Some tm) pc) \<and> tm \<noteq> []
            \<and> length (split (CHR '':'') tm) \<noteq> 3 \<longrightarrow> percent j' = percent j)
     \<and> (\<forall>pp x. p = Some pp \<and> \<not> marker_present d pp \<and> progress_percent pp = Some x
            \<longrightarrow> percent j' = Some (Math_min (Fin 100) (Math_floor x)))
     \<and> (\<forall>b tm pc. d = Some (JNum (Fin b)) \<and> 0 < b \<and> p = Some (Progress (Some tm) pc)
            \<and> well_formed_timemark tm \<longrightarrow> (\<exists>v. percent j' = Some v \<and> is_percent v))
     \<and> (\<forall>pp x. p = Some pp \<and> \<not> marker_present d pp \<and> progress_percent pp = Some x
            \<and> js_le (Fin 0) x \<longrightarrow> (\<exists>v. percent j' = Some v \<and> is_percent v))"
proof -
  define j' where "j' = (case interpret_progress d p of
                      None \<Rightarrow> j
                    | Some v \<Rightarrow> j\<lparr>percent := Some v\<rparr>)\<lparr>raw := Some p\<rparr>"
  have pc: "percent j' = (case interpret_progress d p of None \<Rightarrow> percent j | Some v \<Rightarrow> Some v)"
    by (simp add: j'_def split: option.splits)
  have 1: "on_progress d jobId p s = Inr (store_job jobId j' s)"
    using on_progress_stored[OF assms] by (simp add: j'_def)
  have 2: "progressStore (store_job jobId j' s) jobId = Some j'"
    by (simp add: progressStore_store_job)
  have 3: "percent j' = percent j \<or> (\<exists>v. percent j' = Some v \<and> clamped v)"
    using pc interpret_progress_clamped[of d p] by (cases "interpret_progress d p") simp_all
  have 4: "percent j' = percent j"
    if "d = Some c \<and> truthy c \<and> p = Some (Progress (Some tm) pc) \<and> tm \<noteq> []
            \<and> length (split (CHR '':'') tm) \<noteq> 3" for c tm pc
    using that pc interpret_progress_field_count[of c tm pc] by simp
  have 5: "percent j' = Some (Math_min (Fin 100) (Math_floor x))"
    if "p = Some pp \<and> \<not> marker_present d pp \<and> progress_percent pp = Some x" for pp x
    using that pc interpret_progress_direct[of d pp]
    by (simp add: spec_direct_def Math_min_floor)
  have 6: "\<exists>v. percent j' = Some v \<and> is_percent v"
    if "d = Some (JNum (Fin b)) \<and> 0 < b \<and> p = Some (Progress (Some tm) pc)
          \<and> well_formed_timemark tm"
    for b tm pc
    using that pc interpret_progress_percent_marker[of tm b pc] by auto
  have 7: "\<exists>v. percent j' = Some v \<and> is_percent v"
    if "p = Some pp \<and> \<not> marker_present d pp \<and> progress_percent pp = Some x \<and> js_le (Fin 0) x"
    for pp x
    using that pc interpret_progress_percent_direct[of d pp x] by auto
  from 1 2 3 4 5 6 7 show ?thesis by blast
qed

theorem progress_percent_range_witness:
  "progressStore (store_job ''job'' (processing_job ''t1'') initial) ''job''
     = Some (processing_job ''t1'')
   \<and> truthy (JNum (Fin 60)) \<and> length (split (CHR '':'') ''N/A'') \<noteq> 3
   \<and> (\<exists>s' j'. on_progress (Some (JNum (Fin 60))) ''job''
                 (Some (Progress (Some ''N/A'') (Some (Fin 42))))
                 (store_job ''job'' (processing_job ''t1'') initial) = Inr s'
        \<and> progressStore s' ''job'' = Some j'
        \<and> percent j' = Some (Fin 0))
   \<and> well_formed_timemark ''00:00:30.00''
   \<and> (\<exists>s' j' v. on_progress (Some (JNum (Fin 60))) ''job''
                 (Some (Progress (Some ''00:00:30.00'') None))
                 (store_job ''job'' (processing_job ''t1'') initial) = Inr s'
        \<and> progressStore s' ''job'' = Some j'
        \<and> percent j' = Some v \<and> is_percent v)
   \<and> \<not> marker_present None (Progress (Some ''N/A'') (Some (Fin 42)))
   \<and> js_le (Fin 0) (Fin 42)
   \<and> (\<exists>s' j'. on_progress None ''job'' (Some (Progress (Some ''N/A'') (Some (Fin 42))))
                 (store_job ''job'' (processing_job ''t1'') initial) = Inr s'
        \<and> progressStore s' ''job'' = Some j'
        \<and> percent j' = Some (Fin 42) \<and> is_percent (Fin 42))"
proof -
  let ?s = "store_job ''job'' (processing_job ''t1'') initial"
  have h: "progressStore ?s ''job'' = Some (processing_job ''t1'')"
    by (simp add: progressStore_store_job)
  have p0: "percent (processing_job ''t1'') = Some (Fin 0)" by (simp add: processing_job_def)
  have h2: "truthy (JNum (Fin 60)) \<and> ''N/A'' \<noteq> [] \<and> length (split (CHR '':'') ''N/A'') \<noteq> 3"
    by simp
  have h3: "well_formed_timemark ''00:00:30.00''" by code_simp
  have h4: "\<not> marker_present None (Progress (Some ''N/A'') (Some (Fin 42)))
      \<and> js_le (Fin 0) (Fin 42)"
    by (simp add: marker_present_def)
  have v4: "Math_min (Fin 100) (Math_floor (Fin 42)) = Fin 42" by code_simp
  have i4: "is_percent (Fin 42)" by code_simp
  from progress_percent_range[OF h, of "Some (JNum (Fin 60))"
      "Some (Progress (Some ''N/A'') (Some (Fin 42)))"] h2 p0
  have c2: "\<exists>s' j'. on_progress (Some (JNum (Fin 60))) ''job''
                 (Some (Progress (Some ''N/A'') (Some (Fin 42)))) ?s = Inr s'
        \<and> progressStore s' ''job'' = Some j' \<and> percent j' = Some (Fin 0)"
    by fastforce
  from progress_percent_range[OF h, of "Some (JNum (Fin 60))"
      "Some (Progress (Some ''00:00:30.00'') None)"] h3
  have c3: "\<exists>s' j' v. on_progress (Some (JNum (Fin 60))) ''job''
                 (Some (Progress (Some ''00:00:30.00'') None)) ?s = Inr s'
        \<and> progressStore s' ''job'' = Some j' \<and> percent j' = Some v \<and> is_percent v"
    by fastforce
  from progress_percent_range[OF h, of None "Some (Progress (Some ''N/A'') (Some (Fin 42)))"]
  obtain s' j' where o: "on_progress None ''job''
        (Some (Progress (Some ''N/A'') (Some (Fin 42)))) ?s = Inr s'"
    and l: "progressStore s' ''job'' = Some j'"
    and q: "\<forall>pp x. Some (Progress (Some ''N/A'') (Some (Fin 42))) = Some pp
            \<and> \<not> marker_present None pp \<and> progress_percent pp = Some x
            \<longrightarrow> percent j' = Some (Math_min (Fin 100) (Math_floor x))"
    by blast
  from q h4 have "percent j' = Some (Math_min (Fin 100) (Math_floor (Fin 42)))"
    by (metis progress.sel(2))
  then have "percent j' = Some (Fin 42)" by (simp only: v4)
  with o l i4 have c4: "\<exists>s' j'. on_progress None ''job''
        (Some (Progress (Some ''N/A'') (Some (Fin 42)))) ?s = Inr s'
        \<and> progressStore s' ''job'' = Some j'
        \<and> percent j' = Some (Fin 42) \<and> is_percent (Fin 42)"
    by blast
  from h h2 h3 h4 c2 c3 c4 show ?thesis by blast
qed

text \<open>
  Claim C7 as stated fails: a marker of three fields that are not numbers is
  interpreted, and the stored percent, 0 before the event, is NaN after it.
\<close>

theorem unparsed_marker_stores_NaN:
  "map_option percent
     (stored (run ''job'' ''uploads/1.mp4''
        [Probed ''t1'' (ProbeOk both_streams_60)]
        (submitted ''uploads/1.mp4'' ''job'' ''t0'' (on_disk ''uploads/1.mp4''))) ''job'')
     = Some (Some (Fin 0))
   \<and> map_option percent
     (stored (run ''job'' ''uploads/1.mp4''
        [Probed ''t1'' (ProbeOk both_streams_60),
         ProgressEvent (Some (Progress (Some ''a:b:c'') None))]
        (submitted ''uploads/1.mp4'' ''job'' ''t0'' (on_disk ''uploads/1.mp4''))) ''job'')
     = Some (Some NaN)
   \<and> \<not> is_percent NaN"
  by code_simp

subsection \<open>The raw event in the record\<close>

text \<open>
  Claim C10. Every progress event on a job whose record exists, whatever it is
  interpreted as, leaves a record whose \<^verbatim>\<open>raw\<close> field is the event argument itself,
  and the status endpoint answers 200 with exactly that record.
\<close>

theorem progress_stores_raw:
  assumes "progressStore s jobId = Some j"
  shows "\<exists>s' j'. on_progress d jobId p s = Inr s' \<and> progressStore s' jobId = Some j'
     \<and> raw j' = Some p \<and> get_status jobId s' = Response 200 (JobBody j')"
  using on_progress_stored[OF assms, of d p]
  by (simp add: progressStore_store_job get_status_def progressStore_get_def)

theorem progress_stores_raw_witness:
  "progressStore (store_job ''job'' (processing_job ''t1'') initial) ''job''
     = Some (processing_job ''t1'')
   \<and> (\<exists>s' j'. on_progress None ''job'' (Some (Progress None None))
                 (store_job ''job'' (processing_job ''t1'') initial) = Inr s'
        \<and> progressStore s' ''job'' = Some j'
        \<and> raw j' = Some (Some (Progress None None))
        \<and> get_status ''job'' s' = Response 200 (JobBody j'))"
proof -
  have h: "progressStore (store_job ''job'' (processing_job ''t1'') initial) ''job''
     = Some (processing_job ''t1'')" by (simp add: progressStore_store_job)
  show ?thesis using h progress_stores_raw[OF h, of None "Some (Progress None None)"] by simp
qed

subsection \<open>Timestamps along a job's life\<close>









text \<open>
  The handlers test no status: a progress event that comes after \<^verbatim>\<open>end\<close> changes
  the ready record, and an \<^verbatim>\<open>error\<close> event after \<^verbatim>\<open>end\<close> replaces it.
\<close>

lemma handlers_test_no_status:
  "map_option percent
     (stored (run ''job'' ''uploads/1.mp4''
        [Probed ''t1'' (ProbeOk both_streams_60), EndEvent ''t2'',
         ProgressEvent (Some (Progress (Some ''00:00:10.00'') None))]
        (submitted ''uploads/1.mp4'' ''job'' ''t0'' (on_disk ''uploads/1.mp4''))) ''job'')
     = Some (Some (Fin 16))
   \<and> map_option status
     (stored (run ''job'' ''uploads/1.mp4''
        [Probed ''t1'' (ProbeOk both_streams_60), EndEvent ''t2'', ErrorEvent None]
        (submitted ''uploads/1.mp4'' ''job'' ''t0'' (on_disk ''uploads/1.mp4''))) ''job'')
     = Some Error"
  by code_simp









subsection \<open>The two ways from queued to error\<close>

text \<open>
  When the probe finds neither a video nor an audio stream, the job is in error, no
  ffmpeg command is run and the uploaded file is removed.
\<close>

lemma no_streams_unlinks:
  assumes "\<not> list_ex (\<lambda>t. t = ''video'') (streams m)"
    and "\<not> list_ex (\<lambda>t. t = ''audio'') (streams m)"
  shows "fst (ffprobe_callback jobId inputPath now (ProbeOk m) s) = Finished
       \<and> map_option status
           (progressStore (snd (ffprobe_callback jobId inputPath now (ProbeOk m) s)) jobId)
           = Some Error
       \<and> commands (snd (ffprobe_callback jobId inputPath now (ProbeOk m) s)) = commands s
       \<and> inputPath \<notin> uploads (snd (ffprobe_callback jobId inputPath now (ProbeOk m) s))"
  using assms
  by (simp add: ffprobe_callback_def Let_def progressStore_try_unlink progressStore_store_job
      commands_try_unlink commands_store_job uploads_try_unlink error_job_def)

text \<open>
  Claim C2, on the path where the probe itself fails: the job is in error and no
  ffmpeg command is run, but the callback returns without unlinking, so the uploaded
  files are exactly those from before; the file of an upload whose probe fails is
  still on disk.
\<close>

theorem probe_error_keeps_upload:
  "fst (ffprobe_callback jobId inputPath now ProbeError s) = Finished
   \<and> map_option status
       (progressStore (snd (ffprobe_callback jobId inputPath now ProbeError s)) jobId)
       = Some Error
   \<and> commands (snd (ffprobe_callback jobId inputPath now ProbeError s)) = commands s
   \<and> uploads (snd (ffprobe_callback jobId inputPath now ProbeError s)) = uploads s
   \<and> ''uploads/1.mp4'' \<in> uploads (snd (ffprobe_callback ''job'' ''uploads/1.mp4'' ''t1'' ProbeError
        (snd (submitted ''uploads/1.mp4'' ''job'' ''t0'' (on_disk ''uploads/1.mp4'')))))"
  by (simp add: ffprobe_callback_def progressStore_store_job commands_store_job
      uploads_store_job error_job_def submitted_def upload_def on_disk_def)

subsection \<open>Status queries\<close>

text \<open>
  Claim C8, on the code. A name that is neither an own property of the store nor a
  property of \<^verbatim>\<open>Object.prototype\<close> gets 404 with \<^verbatim>\<open>id not found\<close>, and an issued
  identifier gets 200 with its current record. But \<^verbatim>\<open>__proto__\<close>, which is never
  issued, gets 200 with the empty object.
\<close>

theorem status_lookup:
  "(progressStore s jobId = None \<and> jobId \<notin> set Object_prototype_keys \<longrightarrow>
      get_status jobId s = Response 404 (ErrorBody ''id not found''))
   \<and> (progressStore s jobId = Some j \<longrightarrow> get_status jobId s = Response 200 (JobBody j))
   \<and> (progressStore s ''__proto__'' = None \<longrightarrow>
      get_status ''__proto__'' s = Response 200 EmptyObjectBody)"
  by (simp add: get_status_def progressStore_get_def Object_prototype_keys_def)

theorem status_lookup_witness:
  "progressStore (snd (submitted ''uploads/1.mp4'' ''job'' ''t0'' (on_disk ''uploads/1.mp4'')))
     ''__proto__'' = None
   \<and> get_status ''__proto__''
       (snd (submitted ''uploads/1.mp4'' ''job'' ''t0'' (on_disk ''uploads/1.mp4'')))
     = Response 200 EmptyObjectBody
   \<and> get_status ''job''
       (snd (submitted ''uploads/1.mp4'' ''job'' ''t0'' (on_disk ''uploads/1.mp4'')))
     = Response 200 (JobBody (queued_job ''t0''))
   \<and> get_status ''other''
       (snd (submitted ''uploads/1.mp4'' ''job'' ''t0'' (on_disk ''uploads/1.mp4'')))
     = Response 404 (ErrorBody ''id not found'')"
proof -
  let ?s = "snd (submitted ''uploads/1.mp4'' ''job'' ''t0'' (on_disk ''uploads/1.mp4''))"
  have a: "progressStore ?s ''__proto__'' = None"
    by (simp add: submitted_def upload_def progressStore_store_job on_disk_def initial_def)
  have b: "progressStore ?s ''job'' = Some (queued_job ''t0'')"
    by (simp add: submitted_def upload_def progressStore_store_job)
  have c: "progressStore ?s ''other'' = None \<and> ''other'' \<notin> set Object_prototype_keys"
    by (simp add: submitted_def upload_def progressStore_store_job on_disk_def initial_def
        Object_prototype_keys_def)
  show ?thesis
    using a b c status_lookup[of ?s "''job''" "queued_job ''t0''"]
      status_lookup[of ?s "''other''" "queued_job ''t0''"]
    by simp
qed

end
